theory Spec2Isabelle
  imports Main "HOL-Library.AList"
begin

section \<open>Python values, dictionaries and strings\<close>

text \<open>
  The client is dynamically typed: every argument of a wrapper method is an arbitrary
  Python object.  The fragment of the value universe that the wrappers inspect is
  modelled by \<open>pyval\<close>: \<open>None\<close>, booleans, integers, strings, lists, tuples,
  dictionaries with string keys, and opaque file objects (for torrent uploads).
  Floating point numbers are left out.  A dictionary is an association list with
  distinct keys, in insertion order, as Python dictionaries iterate.
\<close>

datatype pyval =
    PNone
  | PBool bool
  | PInt int
  | PStr string
  | PList "pyval list"
  | PTuple "pyval list"
  | PDict "(string \<times> pyval) list"
  | PFile nat

type_synonym pydict = "(string \<times> pyval) list"

text \<open>Exceptions raised by the client, by the interpreter and by the HTTP library.\<close>

datatype exn =
    LoginRequired
  | RuntimeError
  | ValueError
  | TypeError
  | AttributeError
  | HTTPError int
  | RequestException nat

text \<open>
  \<open>str.lower\<close>, on ASCII text: the letters \<open>A\<close> to \<open>Z\<close> are mapped to
  \<open>a\<close> to \<open>z\<close>, every other character is kept.
\<close>

definition lower_char :: "char \<Rightarrow> char" where
  "lower_char c =
     (let n = (of_char c :: nat) in if 65 \<le> n \<and> n \<le> 90 then char_of (n + 32) else c)"

definition lower :: "string \<Rightarrow> string" where
  "lower s = map lower_char s"

text \<open>
  \<open>sep.join(items)\<close>: the items in order, with \<open>sep\<close> between consecutive
  items; the empty string for no item.
\<close>

fun py_join :: "string \<Rightarrow> string list \<Rightarrow> string" where
  "py_join sep [] = []"
| "py_join sep [x] = x"
| "py_join sep (x # y # ys) = x @ sep @ py_join sep (y # ys)"

text \<open>
  The comprehension \<open>[h.lower() for h in xs]\<close>: only strings have a method
  \<open>lower\<close>, so the first element that is not a string raises \<open>AttributeError\<close>.
\<close>

fun lower_all :: "pyval list \<Rightarrow> exn + string list" where
  "lower_all [] = Inr []"
| "lower_all (PStr s # hs) =
     (case lower_all hs of Inl e \<Rightarrow> Inl e | Inr ls \<Rightarrow> Inr (lower s # ls))"
| "lower_all (_ # hs) = Inl AttributeError"

section \<open>Argument formatting\<close>

text \<open>
  \<open>Client._process_infohash_list\<close>: a list is lowercased element by element and
  joined by a vertical bar, anything else is lowercased as a single string.
\<close>

fun process_infohash_list :: "pyval \<Rightarrow> exn + pydict" where
  "process_infohash_list (PList hs) =
     (case lower_all hs of
        Inl e \<Rightarrow> Inl e
      | Inr ls \<Rightarrow> Inr [(''hashes'', PStr (py_join ''|'' ls))])"
| "process_infohash_list (PStr s) = Inr [(''hashes'', PStr (lower s))]"
| "process_infohash_list _ = Inl AttributeError"

text \<open>
  The value the specification gives for a list of hashes: the lowercased hashes
  concatenated from left to right, a bar in front of every hash but the first.
\<close>

fun hashes_joined :: "string list \<Rightarrow> string" where
  "hashes_joined [] = []"
| "hashes_joined (h # hs) = foldl (\<lambda>acc x. acc @ ''|'' @ lower x) (lower h) hs"

text \<open>Truth value of an object, as \<open>if x\<close> and \<open>not x\<close> test it.\<close>

fun truthy :: "pyval \<Rightarrow> bool" where
  "truthy PNone = False"
| "truthy (PBool b) = b"
| "truthy (PInt i) = (i \<noteq> 0)"
| "truthy (PStr s) = (s \<noteq> [])"
| "truthy (PList xs) = (xs \<noteq> [])"
| "truthy (PTuple xs) = (xs \<noteq> [])"
| "truthy (PDict kvs) = (kvs \<noteq> [])"
| "truthy (PFile f) = True"

text \<open>\<open>d.get(k)\<close>: the value stored under \<open>k\<close>, or \<open>None\<close>.\<close>

definition dict_get :: "pydict \<Rightarrow> string \<Rightarrow> pyval" where
  "dict_get d k = (case map_of d k of None \<Rightarrow> PNone | Some v \<Rightarrow> v)"

text \<open>
  \<open>x == k\<close> for an integer literal \<open>k\<close>: an integer equals it by value, and a
  boolean is the integer 0 or 1.
\<close>

fun py_eq_int :: "pyval \<Rightarrow> int \<Rightarrow> bool" where
  "py_eq_int (PInt i) k = (i = k)"
| "py_eq_int (PBool b) k = ((if b then 1 else 0) = k)"
| "py_eq_int _ k = False"

definition py_in :: "pyval \<Rightarrow> int list \<Rightarrow> bool" where
  "py_in x ks = list_ex (py_eq_int x) ks"

text \<open>\<open>isinstance(x, int)\<close>: \<open>bool\<close> is a subclass of \<open>int\<close>.\<close>

fun is_int :: "pyval \<Rightarrow> bool" where
  "is_int (PInt i) = True"
| "is_int (PBool b) = True"
| "is_int _ = False"

text \<open>\<open>x.lower()\<close> on an arbitrary object.\<close>

fun str_lower :: "pyval \<Rightarrow> exn + string" where
  "str_lower (PStr s) = Inr (lower s)"
| "str_lower _ = Inl AttributeError"

text \<open>\<open>sep.join(xs)\<close> on a list of arbitrary objects: \<open>TypeError\<close> unless all are strings.\<close>

fun strings_of :: "pyval list \<Rightarrow> exn + string list" where
  "strings_of [] = Inr []"
| "strings_of (PStr s # xs) =
     (case strings_of xs of Inl e \<Rightarrow> Inl e | Inr ss \<Rightarrow> Inr (s # ss))"
| "strings_of (_ # xs) = Inl TypeError"

text \<open>\<open>'%s' % i\<close> for a natural number: its decimal digits.\<close>

fun str_nat :: "nat \<Rightarrow> string" where
  "str_nat n =
     (if n < 10 then [char_of (48 + n)] else str_nat (n div 10) @ [char_of (48 + n mod 10)])"

section \<open>The HTTP library and the remote server\<close>

text \<open>
  The two entry points of a \<open>requests.Session\<close> that the client uses.  A call of
  \<open>session.get(url, **kwargs)\<close> has no positional data; a call of
  \<open>session.post(url, data, **kwargs)\<close> carries it.  Sessions are numbered in the
  order of their creation.
\<close>

datatype http_call =
    SessionGet nat string pydict
  | SessionPost nat string pyval pydict

fun call_url :: "http_call \<Rightarrow> string" where
  "call_url (SessionGet s u kw) = u"
| "call_url (SessionPost s u d kw) = u"

fun call_data :: "http_call \<Rightarrow> pyval option" where
  "call_data (SessionGet s u kw) = None"
| "call_data (SessionPost s u d kw) = Some d"

fun call_kwargs :: "http_call \<Rightarrow> pydict" where
  "call_kwargs (SessionGet s u kw) = kw"
| "call_kwargs (SessionPost s u d kw) = kw"

text \<open>
  A response: its status code and its body as text.  (The client sets the encoding to
  UTF-8 before it reads the text of a response to \<open>_request\<close>; decoding is the
  library's work.)
\<close>

record response =
  status_code :: int
  resp_text :: string

datatype reply = Fails exn | Responds response

text \<open>
  What lies outside the repository is a parameter: the JSON codec of the standard
  library (\<open>json_loads\<close> is \<open>None\<close> where \<open>json.loads\<close> raises
  \<open>ValueError\<close>) and the remote server, which answers a call in view of all earlier
  calls, or makes the library raise.
\<close>

record env =
  json_loads :: "string \<Rightarrow> pyval option"
  json_dumps :: "pyval \<Rightarrow> string"
  server :: "http_call list \<Rightarrow> http_call \<Rightarrow> reply"

text \<open>The world outside the client object: the calls sent so far, and the number of sessions created.\<close>

record world =
  sent :: "http_call list"
  sessions :: nat

definition dispatch :: "env \<Rightarrow> http_call \<Rightarrow> world \<Rightarrow> reply \<times> world" where
  "dispatch E rq w = (server E (sent w) rq, w\<lparr>sent := sent w @ [rq]\<rparr>)"

text \<open>\<open>Response.raise_for_status\<close>: client and server error codes raise \<open>HTTPError\<close>.\<close>

definition raise_for_status :: "response \<Rightarrow> exn option" where
  "raise_for_status r =
     (if 400 \<le> status_code r \<and> status_code r < 600 then Some (HTTPError (status_code r))
      else None)"

section \<open>The client object\<close>

text \<open>
  The attributes of a \<open>Client\<close>.  \<open>_is_authenticated\<close> and \<open>session\<close> are
  assigned on some paths of the constructor only: \<open>None\<close> is an attribute that
  does not exist, and reading it raises \<open>AttributeError\<close>.
\<close>

record client =
  url :: string
  is_authenticated :: "bool option"
  session :: "nat option"

type_synonym 'a result = "(exn + 'a) \<times> client \<times> world"

definition raising ::
  "exn + 'a \<Rightarrow> ('a \<Rightarrow> client \<Rightarrow> world \<Rightarrow> 'b result) \<Rightarrow> client \<Rightarrow> world \<Rightarrow> 'b result" where
  "raising x f c w = (case x of Inl e \<Rightarrow> (Inl e, c, w) | Inr a \<Rightarrow> f a c w)"

definition endswith :: "string \<Rightarrow> string \<Rightarrow> bool" where
  "endswith s suf = (length suf \<le> length s \<and> drop (length s - length suf) s = suf)"

text \<open>
  \<open>Client.__init__\<close>.  The object is returned with the outcome, so that its
  attributes are visible also where the constructor raises.
\<close>

definition init :: "env \<Rightarrow> string \<Rightarrow> world \<Rightarrow> unit result" where
  "init E url0 w =
     (let url1 = (if \<not> endswith url0 ''/api/v2/'' then url0 @ ''/api/v2/'' else url0);
          self = \<lparr>url = url1, is_authenticated = None, session = None\<rparr>;
          sid = sessions w;
          (check_prefs, w') =
             dispatch E (SessionGet sid (url1 @ ''app/preferences'') []) (w\<lparr>sessions := Suc sid\<rparr>)
      in case check_prefs of
           Fails e \<Rightarrow> (Inl e, self, w')
         | Responds r \<Rightarrow>
             if status_code r = 200
             then (Inr (), self\<lparr>is_authenticated := Some True, session := Some sid\<rparr>, w')
             else if status_code r = 404
             then (Inl RuntimeError, self\<lparr>is_authenticated := Some False\<rparr>, w')
             else (Inr (), self\<lparr>is_authenticated := Some False\<rparr>, w'))"

subsection \<open>Request methods\<close>

text \<open>The decoding of the response body at the end of \<open>Client._request\<close>.\<close>

definition decode_body :: "env \<Rightarrow> string \<Rightarrow> exn + pyval" where
  "decode_body E t =
     (if length t = 0
      then (case json_loads E ''{}'' of None \<Rightarrow> Inl ValueError | Some v \<Rightarrow> Inr v)
      else (case json_loads E t of Some v \<Rightarrow> Inr v | None \<Rightarrow> Inr (PStr t)))"

text \<open>\<open>Client._request\<close>, its parameters bound.\<close>

definition request ::
  "env \<Rightarrow> string \<Rightarrow> string \<Rightarrow> pyval \<Rightarrow> pydict \<Rightarrow> client \<Rightarrow> world \<Rightarrow> pyval result" where
  "request E endpoint method data kwargs c w =
     (let final_url = url c @ endpoint
      in case is_authenticated c of
           None \<Rightarrow> (Inl AttributeError, c, w)
         | Some auth \<Rightarrow>
             if \<not> auth then (Inl LoginRequired, c, w)
             else
               (case session c of
                  None \<Rightarrow> (Inl AttributeError, c, w)
                | Some rq \<Rightarrow>
                    (let (rep, w') =
                           (if method = ''get''
                            then dispatch E (SessionGet rq final_url kwargs) w
                            else dispatch E (SessionPost rq final_url data kwargs) w)
                     in case rep of
                          Fails e \<Rightarrow> (Inl e, c, w')
                        | Responds r \<Rightarrow>
                            (case raise_for_status r of
                               Some e \<Rightarrow> (Inl e, c, w')
                             | None \<Rightarrow> (decode_body E (resp_text r), c, w')))))"

text \<open>
  \<open>Client._get\<close> and \<open>Client._post\<close>.  Both pass their keyword arguments on with
  \<open>**kwargs\<close>: a keyword \<open>method\<close> collides with the positional argument and the
  interpreter raises \<open>TypeError\<close>; in \<open>_get\<close> a keyword \<open>data\<close> is bound to
  the parameter \<open>data\<close> of \<open>_request\<close> and is no longer among its \<open>kwargs\<close>.
  (A keyword that names a parameter of \<open>_get\<close> or \<open>_post\<close> itself never
  reaches their \<open>kwargs\<close>: the interpreter binds it or rejects the call.)
\<close>

definition get :: "env \<Rightarrow> string \<Rightarrow> pydict \<Rightarrow> client \<Rightarrow> world \<Rightarrow> pyval result" where
  "get E endpoint kwargs c w =
     (if ''method'' \<in> set (map fst kwargs) then (Inl TypeError, c, w)
      else request E endpoint ''get'' (dict_get kwargs ''data'')
             (AList.delete ''data'' kwargs) c w)"

definition post ::
  "env \<Rightarrow> string \<Rightarrow> pyval \<Rightarrow> pydict \<Rightarrow> client \<Rightarrow> world \<Rightarrow> pyval result" where
  "post E endpoint data kwargs c w =
     (if ''method'' \<in> set (map fst kwargs) then (Inl TypeError, c, w)
      else request E endpoint ''post'' data kwargs c w)"

subsection \<open>Authentication methods\<close>

definition login :: "env \<Rightarrow> pyval \<Rightarrow> pyval \<Rightarrow> client \<Rightarrow> world \<Rightarrow> pyval result" where
  "login E username password c w =
     (let sid = sessions w;
          c1 = c\<lparr>session := Some sid\<rparr>;
          (rep, w') =
             dispatch E
               (SessionPost sid (url c1 @ ''auth/login'')
                  (PDict [(''username'', username), (''password'', password)]) [])
               (w\<lparr>sessions := Suc sid\<rparr>)
      in case rep of
           Fails e \<Rightarrow> (Inl e, c1, w')
         | Responds r \<Rightarrow>
             if resp_text r = ''Ok.'' then (Inr PNone, c1\<lparr>is_authenticated := Some True\<rparr>, w')
             else (Inr (PStr (resp_text r)), c1, w'))"

definition logout :: "env \<Rightarrow> client \<Rightarrow> world \<Rightarrow> pyval result" where
  "logout E c w =
     (case get E ''auth/logout'' [] c w of
        (Inl e, c', w') \<Rightarrow> (Inl e, c', w')
      | (Inr response, c', w') \<Rightarrow> (Inr response, c'\<lparr>is_authenticated := Some False\<rparr>, w'))"

section \<open>The wrapper methods\<close>

text \<open>
  One definition for each public method and property of \<open>Client\<close>, in the order of
  the source.  Default values of parameters are the caller's business: every parameter
  is passed.
\<close>

subsection \<open>Application methods\<close>

definition qbittorrent_version :: "env \<Rightarrow> client \<Rightarrow> world \<Rightarrow> pyval result" where
  "qbittorrent_version E = get E ''app/version'' []"

definition api_version :: "env \<Rightarrow> client \<Rightarrow> world \<Rightarrow> pyval result" where
  "api_version E = get E ''app/webapiVersion'' []"

definition shutdown :: "env \<Rightarrow> client \<Rightarrow> world \<Rightarrow> pyval result" where
  "shutdown E = get E ''app/shutdown'' []"

text \<open>
  The property \<open>preferences\<close> fetches the preferences and wraps them in a
  \<open>Proxy\<close>, a subclass of \<open>Client\<close> with one more attribute.  The constructor
  of \<open>Proxy\<close> runs the constructor of \<open>Client\<close> on the URL of the client, and
  then takes over its authentication flag and its session.
\<close>

record proxy = client +
  prefs :: pyval

definition preferences :: "env \<Rightarrow> client \<Rightarrow> world \<Rightarrow> proxy result" where
  "preferences E c w =
     (case get E ''app/preferences'' [] c w of
        (Inl e, c', w') \<Rightarrow> (Inl e, c', w')
      | (Inr fetched, c', w') \<Rightarrow>
          (case (is_authenticated c', session c') of
             (Some auth, Some s) \<Rightarrow>
               (case init E (url c') w' of
                  (Inl e, p, w'') \<Rightarrow> (Inl e, c', w'')
                | (Inr u, p, w'') \<Rightarrow>
                    (Inr \<lparr>url = url p, is_authenticated = Some auth, session = Some s,
                          prefs = fetched\<rparr>, c', w''))
           | _ \<Rightarrow> (Inl AttributeError, c', w')))"

definition set_preferences :: "env \<Rightarrow> pydict \<Rightarrow> client \<Rightarrow> world \<Rightarrow> pyval result" where
  "set_preferences E kwargs =
     (let json_data = ''json='' @ json_dumps E (PDict kwargs);
          headers = PDict [(''content-type'', PStr ''application/x-www-form-urlencoded'')]
      in post E ''app/setPreferences'' (PStr json_data) [(''headers'', headers)])"

definition get_default_save_path :: "env \<Rightarrow> client \<Rightarrow> world \<Rightarrow> pyval result" where
  "get_default_save_path E = get E ''app/defaultSavePath'' []"

subsection \<open>Log methods\<close>

definition get_log ::
  "env \<Rightarrow> pyval \<Rightarrow> pyval \<Rightarrow> pyval \<Rightarrow> pyval \<Rightarrow> pyval \<Rightarrow> client \<Rightarrow> world \<Rightarrow> pyval result" where
  "get_log E normal info warning critical last_known_id =
     post E ''log/main''
       (PDict [(''normal'', normal), (''info'', info), (''warning'', warning),
               (''critical'', critical), (''last_known_id'', last_known_id)]) []"

definition get_peer_log :: "env \<Rightarrow> pyval \<Rightarrow> client \<Rightarrow> world \<Rightarrow> pyval result" where
  "get_peer_log E last_known_id = post E ''log/peers'' (PDict [(''last_known_id'', last_known_id)]) []"

subsection \<open>Sync methods\<close>

definition get_sync_maindata :: "env \<Rightarrow> pyval \<Rightarrow> client \<Rightarrow> world \<Rightarrow> pyval result" where
  "get_sync_maindata E rid = get E ''sync/maindata'' [(''params'', PDict [(''rid'', rid)])]"

definition get_sync_torrentPeers ::
  "env \<Rightarrow> pyval \<Rightarrow> pyval \<Rightarrow> client \<Rightarrow> world \<Rightarrow> pyval result" where
  "get_sync_torrentPeers E hash rid =
     get E ''sync/torrentPeers'' [(''params'', PDict [(''hash'', hash), (''rid'', rid)])]"

subsection \<open>Transfer info methods\<close>

definition global_transfer_info :: "env \<Rightarrow> client \<Rightarrow> world \<Rightarrow> pyval result" where
  "global_transfer_info E = get E ''transfer/info'' []"

definition get_alternative_speed_status :: "env \<Rightarrow> client \<Rightarrow> world \<Rightarrow> pyval result" where
  "get_alternative_speed_status E = get E ''transfer/speedLimitsMode'' []"

definition toggle_alternative_speed :: "env \<Rightarrow> client \<Rightarrow> world \<Rightarrow> pyval result" where
  "toggle_alternative_speed E = get E ''transfer/toggleSpeedLimitsMode'' []"

definition get_global_download_limit :: "env \<Rightarrow> client \<Rightarrow> world \<Rightarrow> pyval result" where
  "get_global_download_limit E = get E ''transfer/downloadLimit'' []"

definition set_global_download_limit :: "env \<Rightarrow> pyval \<Rightarrow> client \<Rightarrow> world \<Rightarrow> pyval result" where
  "set_global_download_limit E limit = post E ''transfer/setDownloadLimit'' (PDict [(''limit'', limit)]) []"

definition get_global_upload_limit :: "env \<Rightarrow> client \<Rightarrow> world \<Rightarrow> pyval result" where
  "get_global_upload_limit E = get E ''transfer/uploadLimit'' []"

definition set_global_upload_limit :: "env \<Rightarrow> pyval \<Rightarrow> client \<Rightarrow> world \<Rightarrow> pyval result" where
  "set_global_upload_limit E limit = post E ''transfer/setUploadLimit'' (PDict [(''limit'', limit)]) []"

subsection \<open>Torrent management methods\<close>

text \<open>
  The loop of \<open>torrents\<close> over its keyword arguments: each is stored in
  \<open>params\<close>, the old name \<open>status\<close> under the new name \<open>filter\<close>.
\<close>

definition torrents_params :: "pydict \<Rightarrow> pydict" where
  "torrents_params filters =
     fold (\<lambda>(name, value) params.
             AList.update (if name = ''status'' then ''filter'' else name) value params)
          filters []"

definition torrents :: "env \<Rightarrow> pydict \<Rightarrow> client \<Rightarrow> world \<Rightarrow> pyval result" where
  "torrents E filters =
     get E ''torrents/info'' [(''params'', PDict (torrents_params filters))]"

definition get_torrent :: "env \<Rightarrow> pyval \<Rightarrow> client \<Rightarrow> world \<Rightarrow> pyval result" where
  "get_torrent E infohash = post E ''torrents/properties'' (PDict [(''hash'', infohash)]) []"

definition get_torrent_trackers :: "env \<Rightarrow> pyval \<Rightarrow> client \<Rightarrow> world \<Rightarrow> pyval result" where
  "get_torrent_trackers E infohash = post E ''torrents/trackers'' (PDict [(''hash'', infohash)]) []"

definition get_torrent_webseeds :: "env \<Rightarrow> pyval \<Rightarrow> client \<Rightarrow> world \<Rightarrow> pyval result" where
  "get_torrent_webseeds E infohash = post E ''torrents/webseeds'' (PDict [(''hash'', infohash)]) []"

definition get_torrent_files :: "env \<Rightarrow> pyval \<Rightarrow> client \<Rightarrow> world \<Rightarrow> pyval result" where
  "get_torrent_files E infohash = post E ''torrents/files'' (PDict [(''hash'', infohash)]) []"

definition get_torrent_pieces_state :: "env \<Rightarrow> pyval \<Rightarrow> client \<Rightarrow> world \<Rightarrow> pyval result" where
  "get_torrent_pieces_state E infohash = post E ''torrents/pieceStates'' (PDict [(''hash'', infohash)]) []"

definition get_torrent_pieces_hashes :: "env \<Rightarrow> pyval \<Rightarrow> client \<Rightarrow> world \<Rightarrow> pyval result" where
  "get_torrent_pieces_hashes E infohash = post E ''torrents/pieceHashes'' (PDict [(''hash'', infohash)]) []"

definition pause :: "env \<Rightarrow> pyval \<Rightarrow> client \<Rightarrow> world \<Rightarrow> pyval result" where
  "pause E infohash_list =
     raising (process_infohash_list infohash_list) (\<lambda>data. post E ''torrents/pause'' (PDict data) [])"

definition pause_all :: "env \<Rightarrow> client \<Rightarrow> world \<Rightarrow> pyval result" where
  "pause_all E = post E ''torrents/pause'' (PDict [(''hashes'', PStr ''all'')]) []"

definition resume :: "env \<Rightarrow> pyval \<Rightarrow> client \<Rightarrow> world \<Rightarrow> pyval result" where
  "resume E infohash_list =
     raising (process_infohash_list infohash_list) (\<lambda>data. post E ''torrents/resume'' (PDict data) [])"

definition resume_all :: "env \<Rightarrow> client \<Rightarrow> world \<Rightarrow> pyval result" where
  "resume_all E = post E ''torrents/resume'' (PDict [(''hashes'', PStr ''all'')]) []"

definition delete :: "env \<Rightarrow> pyval \<Rightarrow> client \<Rightarrow> world \<Rightarrow> pyval result" where
  "delete E infohash_list =
     raising (process_infohash_list infohash_list)
       (\<lambda>data. post E ''torrents/delete''
                 (PDict (AList.update ''deleteFiles'' (PBool False) data)) [])"

definition delete_permanently :: "env \<Rightarrow> pyval \<Rightarrow> client \<Rightarrow> world \<Rightarrow> pyval result" where
  "delete_permanently E infohash_list =
     raising (process_infohash_list infohash_list)
       (\<lambda>data. post E ''torrents/delete''
                 (PDict (AList.update ''deleteFiles'' (PBool True) data)) [])"

definition recheck :: "env \<Rightarrow> pyval \<Rightarrow> client \<Rightarrow> world \<Rightarrow> pyval result" where
  "recheck E infohash_list =
     raising (process_infohash_list infohash_list) (\<lambda>data. post E ''torrents/recheck'' (PDict data) [])"

definition recheck_all :: "env \<Rightarrow> client \<Rightarrow> world \<Rightarrow> pyval result" where
  "recheck_all E = post E ''torrents/recheck'' (PDict [(''hashes'', PStr ''all'')]) []"

definition reannounce :: "env \<Rightarrow> pyval \<Rightarrow> client \<Rightarrow> world \<Rightarrow> pyval result" where
  "reannounce E infohash_list =
     raising (process_infohash_list infohash_list) (\<lambda>data. post E ''torrents/reannounce'' (PDict data) [])"

definition reannounce_all :: "env \<Rightarrow> client \<Rightarrow> world \<Rightarrow> pyval result" where
  "reannounce_all E = post E ''torrents/reannounce'' (PDict [(''hashes'', PStr ''all'')]) []"

text \<open>
  The conversion of old option names in \<open>download_from_link\<close>: a loop over the
  one entry of \<open>old_arg_map\<close>, on a copy of the keyword arguments.
\<close>

definition convert_old_options :: "pydict \<Rightarrow> pydict" where
  "convert_old_options kwargs =
     fold (\<lambda>(old_arg, new_arg) options.
             if truthy (dict_get options old_arg) \<and> \<not> truthy (dict_get options new_arg)
             then AList.update new_arg (dict_get options old_arg) options
             else options)
          [(''save_path'', ''savepath'')] kwargs"

text \<open>The value stored under \<open>urls\<close>: a list of links is joined by newlines.\<close>

fun link_urls :: "pyval \<Rightarrow> exn + pyval" where
  "link_urls (PList ls) =
     (case strings_of ls of Inl e \<Rightarrow> Inl e | Inr ss \<Rightarrow> Inr (PStr (py_join [CHR 0x0A] ss)))"
| "link_urls link = Inr link"

definition download_from_link ::
  "env \<Rightarrow> pyval \<Rightarrow> pydict \<Rightarrow> client \<Rightarrow> world \<Rightarrow> pyval result" where
  "download_from_link E link kwargs =
     (let options = convert_old_options kwargs
      in raising (link_urls link)
           (\<lambda>urls.
              (let options' = AList.update ''urls'' urls options;
                   dummy_file = PDict [(''_dummy'', PTuple [PNone, PStr ''_dummy''])]
               in post E ''torrents/add'' (PDict options') [(''files'', dummy_file)])))"

text \<open>The files of \<open>download_from_file\<close>: a list is numbered from 0.\<close>

fun torrent_files :: "pyval \<Rightarrow> pydict" where
  "torrent_files (PList fs) =
     fold (\<lambda>(i, f) files. AList.update (''torrents'' @ str_nat i) f files)
          (List.enumerate 0 fs) []"
| "torrent_files file_buffer = [(''torrents'', file_buffer)]"

definition download_from_file ::
  "env \<Rightarrow> pyval \<Rightarrow> pydict \<Rightarrow> client \<Rightarrow> world \<Rightarrow> pyval result" where
  "download_from_file E file_buffer kwargs =
     (let data = kwargs;
          data' = (if truthy (dict_get data ''save_path'')
                   then AList.update ''savepath'' (dict_get data ''save_path'') data
                   else data)
      in post E ''torrents/add'' (PDict data') [(''files'', PDict (torrent_files file_buffer))])"

definition add_trackers ::
  "env \<Rightarrow> pyval \<Rightarrow> pyval \<Rightarrow> client \<Rightarrow> world \<Rightarrow> pyval result" where
  "add_trackers E infohash trackers =
     raising (str_lower infohash)
       (\<lambda>h. post E ''torrents/addTrackers'' (PDict [(''hash'', PStr h), (''urls'', trackers)]) [])"

definition increase_priority :: "env \<Rightarrow> pyval \<Rightarrow> client \<Rightarrow> world \<Rightarrow> pyval result" where
  "increase_priority E infohash_list =
     raising (process_infohash_list infohash_list) (\<lambda>data. post E ''torrents/increasePrio'' (PDict data) [])"

definition decrease_priority :: "env \<Rightarrow> pyval \<Rightarrow> client \<Rightarrow> world \<Rightarrow> pyval result" where
  "decrease_priority E infohash_list =
     raising (process_infohash_list infohash_list) (\<lambda>data. post E ''torrents/decreasePrio'' (PDict data) [])"

definition set_max_priority :: "env \<Rightarrow> pyval \<Rightarrow> client \<Rightarrow> world \<Rightarrow> pyval result" where
  "set_max_priority E infohash_list =
     raising (process_infohash_list infohash_list) (\<lambda>data. post E ''torrents/topPrio'' (PDict data) [])"

definition set_min_priority :: "env \<Rightarrow> pyval \<Rightarrow> client \<Rightarrow> world \<Rightarrow> pyval result" where
  "set_min_priority E infohash_list =
     raising (process_infohash_list infohash_list) (\<lambda>data. post E ''torrents/bottomPrio'' (PDict data) [])"

definition set_file_priority ::
  "env \<Rightarrow> pyval \<Rightarrow> pyval \<Rightarrow> pyval \<Rightarrow> client \<Rightarrow> world \<Rightarrow> pyval result" where
  "set_file_priority E infohash file_id priority c w =
     (if \<not> py_in priority [0, 1, 2, 7] then (Inl ValueError, c, w)
      else if \<not> is_int file_id then (Inl TypeError, c, w)
      else raising (str_lower infohash)
             (\<lambda>h. post E ''torrents/filePrio''
                     (PDict [(''hash'', PStr h), (''id'', file_id), (''priority'', priority)]) [])
             c w)"

definition get_torrent_download_limit :: "env \<Rightarrow> pyval \<Rightarrow> client \<Rightarrow> world \<Rightarrow> pyval result" where
  "get_torrent_download_limit E infohash_list =
     raising (process_infohash_list infohash_list) (\<lambda>data. post E ''torrents/downloadLimit'' (PDict data) [])"

definition set_torrent_download_limit :: "env \<Rightarrow> pyval \<Rightarrow> pyval \<Rightarrow> client \<Rightarrow> world \<Rightarrow> pyval result" where
  "set_torrent_download_limit E infohash_list limit =
     raising (process_infohash_list infohash_list)
       (\<lambda>data. post E ''torrents/setDownloadLimit'' (PDict (AList.update ''limit'' limit data)) [])"

definition set_torrent_share_limit ::
  "env \<Rightarrow> pyval \<Rightarrow> pyval \<Rightarrow> pyval \<Rightarrow> client \<Rightarrow> world \<Rightarrow> pyval result" where
  "set_torrent_share_limit E infohash_list ratioLimit seedingTimeLimit =
     raising (process_infohash_list infohash_list)
       (\<lambda>data. post E ''torrents/setShareLimits''
                 (PDict (AList.update ''seedingTimeLimit'' seedingTimeLimit
                           (AList.update ''ratioLimit'' ratioLimit data))) [])"

definition get_torrent_upload_limit :: "env \<Rightarrow> pyval \<Rightarrow> client \<Rightarrow> world \<Rightarrow> pyval result" where
  "get_torrent_upload_limit E infohash_list =
     raising (process_infohash_list infohash_list) (\<lambda>data. post E ''torrents/uploadLimit'' (PDict data) [])"

definition set_torrent_upload_limit :: "env \<Rightarrow> pyval \<Rightarrow> pyval \<Rightarrow> client \<Rightarrow> world \<Rightarrow> pyval result" where
  "set_torrent_upload_limit E infohash_list limit =
     raising (process_infohash_list infohash_list)
       (\<lambda>data. post E ''torrents/setUploadLimit'' (PDict (AList.update ''limit'' limit data)) [])"

definition set_location :: "env \<Rightarrow> pyval \<Rightarrow> pyval \<Rightarrow> client \<Rightarrow> world \<Rightarrow> pyval result" where
  "set_location E infohash_list location =
     raising (process_infohash_list infohash_list)
       (\<lambda>data. post E ''torrents/setLocation'' (PDict (AList.update ''location'' location data)) [])"

definition set_torrent_name :: "env \<Rightarrow> pyval \<Rightarrow> pyval \<Rightarrow> client \<Rightarrow> world \<Rightarrow> pyval result" where
  "set_torrent_name E infohash name = post E ''torrents/rename'' (PDict [(''hash'', infohash), (''name'', name)]) []"

definition set_category :: "env \<Rightarrow> pyval \<Rightarrow> pyval \<Rightarrow> client \<Rightarrow> world \<Rightarrow> pyval result" where
  "set_category E infohash_list category =
     raising (process_infohash_list infohash_list)
       (\<lambda>data. post E ''torrents/setCategory'' (PDict (AList.update ''category'' category data)) [])"

definition add_category :: "env \<Rightarrow> pyval \<Rightarrow> client \<Rightarrow> world \<Rightarrow> pyval result" where
  "add_category E category = post E ''torrents/createCategory'' (PDict [(''category'', category)]) []"

definition edit_category :: "env \<Rightarrow> pyval \<Rightarrow> pyval \<Rightarrow> client \<Rightarrow> world \<Rightarrow> pyval result" where
  "edit_category E category savePath = post E ''torrents/editCategory'' (PDict [(''category'', category), (''savePath'', savePath)]) []"

fun remove_category_data :: "pyval \<Rightarrow> exn + pydict" where
  "remove_category_data (PList hs) =
     (case lower_all hs of
        Inl e \<Rightarrow> Inl e
      | Inr ls \<Rightarrow> Inr [(''categories'', PStr (py_join ''%0A'' ls))])"
| "remove_category_data (PStr s) = Inr [(''categories'', PStr (lower s))]"
| "remove_category_data _ = Inl AttributeError"

definition remove_category :: "env \<Rightarrow> pyval \<Rightarrow> client \<Rightarrow> world \<Rightarrow> pyval result" where
  "remove_category E category_list =
     raising (remove_category_data category_list)
       (\<lambda>data. post E ''torrents/removeCategories'' (PDict data) [])"

definition set_automatic_torrent :: "env \<Rightarrow> pyval \<Rightarrow> pyval \<Rightarrow> client \<Rightarrow> world \<Rightarrow> pyval result" where
  "set_automatic_torrent E infohash_list enable =
     raising (process_infohash_list infohash_list)
       (\<lambda>data. post E ''torrents/setAutoManagement'' (PDict (AList.update ''enable'' enable data)) [])"

definition set_automatic_torrent_all :: "env \<Rightarrow> pyval \<Rightarrow> client \<Rightarrow> world \<Rightarrow> pyval result" where
  "set_automatic_torrent_all E enable =
     post E ''torrents/setAutoManagement'' (PDict [(''hashes'', PStr ''all''), (''enable'', enable)]) []"

definition toggle_sequential_download :: "env \<Rightarrow> pyval \<Rightarrow> client \<Rightarrow> world \<Rightarrow> pyval result" where
  "toggle_sequential_download E infohash_list =
     raising (process_infohash_list infohash_list) (\<lambda>data. post E ''torrents/toggleSequentialDownload'' (PDict data) [])"

definition toggle_first_last_piece_priority :: "env \<Rightarrow> pyval \<Rightarrow> client \<Rightarrow> world \<Rightarrow> pyval result" where
  "toggle_first_last_piece_priority E infohash_list =
     raising (process_infohash_list infohash_list) (\<lambda>data. post E ''torrents/toggleFirstLastPiecePrio'' (PDict data) [])"

definition force_start :: "env \<Rightarrow> pyval \<Rightarrow> pyval \<Rightarrow> client \<Rightarrow> world \<Rightarrow> pyval result" where
  "force_start E infohash_list value =
     raising (process_infohash_list infohash_list)
       (\<lambda>data. post E ''torrents/setForceStart''
                 (PDict (AList.update ''value'' (PStr (json_dumps E value)) data)) [])"

definition set_super_seeding :: "env \<Rightarrow> pyval \<Rightarrow> pyval \<Rightarrow> client \<Rightarrow> world \<Rightarrow> pyval result" where
  "set_super_seeding E infohash_list value =
     raising (process_infohash_list infohash_list)
       (\<lambda>data. post E ''torrents/setSuperSeeding'' (PDict (AList.update ''value'' value data)) [])"

definition set_super_seeding_all :: "env \<Rightarrow> pyval \<Rightarrow> client \<Rightarrow> world \<Rightarrow> pyval result" where
  "set_super_seeding_all E value =
     post E ''torrents/setSuperSeeding'' (PDict [(''hashes'', PStr ''all''), (''value'', value)]) []"

subsection \<open>RSS methods\<close>

definition add_folder :: "env \<Rightarrow> pyval \<Rightarrow> client \<Rightarrow> world \<Rightarrow> pyval result" where
  "add_folder E path = post E ''rss/addFolder'' (PDict [(''path'', path)]) []"

definition add_feed :: "env \<Rightarrow> pyval \<Rightarrow> pyval \<Rightarrow> client \<Rightarrow> world \<Rightarrow> pyval result" where
  "add_feed E feed_url path =
     post E ''rss/addFeed'' (PDict [(''url'', feed_url), (''path'', path)]) []"

definition remove_item :: "env \<Rightarrow> pyval \<Rightarrow> client \<Rightarrow> world \<Rightarrow> pyval result" where
  "remove_item E path = post E ''rss/addFeed'' (PDict [(''path'', path)]) []"

definition get_item :: "env \<Rightarrow> pyval \<Rightarrow> client \<Rightarrow> world \<Rightarrow> pyval result" where
  "get_item E withData = get E ''rss/items'' [(''data'', PDict [(''withData'', withData)])]"

definition set_rule :: "env \<Rightarrow> pyval \<Rightarrow> pyval \<Rightarrow> client \<Rightarrow> world \<Rightarrow> pyval result" where
  "set_rule E ruleName ruleDef = post E ''rss/setRule'' (PDict [(''ruleName'', ruleName), (''ruleDef'', ruleDef)]) []"

definition rename_rule :: "env \<Rightarrow> pyval \<Rightarrow> pyval \<Rightarrow> client \<Rightarrow> world \<Rightarrow> pyval result" where
  "rename_rule E ruleName newRuleName = post E ''rss/renameRule'' (PDict [(''ruleName'', ruleName), (''newRuleName'', newRuleName)]) []"

definition remove_rule :: "env \<Rightarrow> pyval \<Rightarrow> client \<Rightarrow> world \<Rightarrow> pyval result" where
  "remove_rule E ruleName = post E ''rss/removeRule'' (PDict [(''ruleName'', ruleName)]) []"

definition get_rules :: "env \<Rightarrow> client \<Rightarrow> world \<Rightarrow> pyval result" where
  "get_rules E = get E ''rss/rules'' []"

section \<open>The interface as a whole\<close>

text \<open>
  The public interface of a client object: one constructor of \<open>call\<close> for each
  method and property, with its arguments.  \<open>perform\<close> runs a call; it answers a
  plain value, or the \<open>Proxy\<close> object that \<open>preferences\<close> builds.
\<close>

datatype call =
    Login pyval pyval
  | Logout
  | Qbittorrent_version
  | Api_version
  | Shutdown
  | Preferences
  | Set_preferences pydict
  | Get_default_save_path
  | Get_log pyval pyval pyval pyval pyval
  | Get_peer_log pyval
  | Get_sync_maindata pyval
  | Get_sync_torrentPeers pyval pyval
  | Global_transfer_info
  | Get_alternative_speed_status
  | Toggle_alternative_speed
  | Get_global_download_limit
  | Set_global_download_limit pyval
  | Get_global_upload_limit
  | Set_global_upload_limit pyval
  | Torrents pydict
  | Get_torrent pyval
  | Get_torrent_trackers pyval
  | Get_torrent_webseeds pyval
  | Get_torrent_files pyval
  | Get_torrent_pieces_state pyval
  | Get_torrent_pieces_hashes pyval
  | Pause pyval
  | Pause_all
  | Resume pyval
  | Resume_all
  | Delete pyval
  | Delete_permanently pyval
  | Recheck pyval
  | Recheck_all
  | Reannounce pyval
  | Reannounce_all
  | Download_from_link pyval pydict
  | Download_from_file pyval pydict
  | Add_trackers pyval pyval
  | Increase_priority pyval
  | Decrease_priority pyval
  | Set_max_priority pyval
  | Set_min_priority pyval
  | Set_file_priority pyval pyval pyval
  | Get_torrent_download_limit pyval
  | Set_torrent_download_limit pyval pyval
  | Set_torrent_share_limit pyval pyval pyval
  | Get_torrent_upload_limit pyval
  | Set_torrent_upload_limit pyval pyval
  | Set_location pyval pyval
  | Set_torrent_name pyval pyval
  | Set_category pyval pyval
  | Add_category pyval
  | Edit_category pyval pyval
  | Remove_category pyval
  | Set_automatic_torrent pyval pyval
  | Set_automatic_torrent_all pyval
  | Toggle_sequential_download pyval
  | Toggle_first_last_piece_priority pyval
  | Force_start pyval pyval
  | Set_super_seeding pyval pyval
  | Set_super_seeding_all pyval
  | Add_folder pyval
  | Add_feed pyval pyval
  | Remove_item pyval
  | Get_item pyval
  | Set_rule pyval pyval
  | Rename_rule pyval pyval
  | Remove_rule pyval
  | Get_rules

datatype answer = Value pyval | ProxyObject proxy

definition answered :: "('a \<Rightarrow> answer) \<Rightarrow> 'a result \<Rightarrow> answer result" where
  "answered f r = (case r of (x, c, w) \<Rightarrow> (map_sum id f x, c, w))"

primrec perform :: "env \<Rightarrow> call \<Rightarrow> client \<Rightarrow> world \<Rightarrow> answer result" where
  "perform E (Login a1 a2) c w = answered Value (login E a1 a2 c w)"
| "perform E Logout c w = answered Value (logout E c w)"
| "perform E Qbittorrent_version c w = answered Value (qbittorrent_version E c w)"
| "perform E Api_version c w = answered Value (api_version E c w)"
| "perform E Shutdown c w = answered Value (shutdown E c w)"
| "perform E Preferences c w = answered ProxyObject (preferences E c w)"
| "perform E (Set_preferences a1) c w = answered Value (set_preferences E a1 c w)"
| "perform E Get_default_save_path c w = answered Value (get_default_save_path E c w)"
| "perform E (Get_log a1 a2 a3 a4 a5) c w = answered Value (get_log E a1 a2 a3 a4 a5 c w)"
| "perform E (Get_peer_log a1) c w = answered Value (get_peer_log E a1 c w)"
| "perform E (Get_sync_maindata a1) c w = answered Value (get_sync_maindata E a1 c w)"
| "perform E (Get_sync_torrentPeers a1 a2) c w = answered Value (get_sync_torrentPeers E a1 a2 c w)"
| "perform E Global_transfer_info c w = answered Value (global_transfer_info E c w)"
| "perform E Get_alternative_speed_status c w = answered Value (get_alternative_speed_status E c w)"
| "perform E Toggle_alternative_speed c w = answered Value (toggle_alternative_speed E c w)"
| "perform E Get_global_download_limit c w = answered Value (get_global_download_limit E c w)"
| "perform E (Set_global_download_limit a1) c w = answered Value (set_global_download_limit E a1 c w)"
| "perform E Get_global_upload_limit c w = answered Value (get_global_upload_limit E c w)"
| "perform E (Set_global_upload_limit a1) c w = answered Value (set_global_upload_limit E a1 c w)"
| "perform E (Torrents a1) c w = answered Value (torrents E a1 c w)"
| "perform E (Get_torrent a1) c w = answered Value (get_torrent E a1 c w)"
| "perform E (Get_torrent_trackers a1) c w = answered Value (get_torrent_trackers E a1 c w)"
| "perform E (Get_torrent_webseeds a1) c w = answered Value (get_torrent_webseeds E a1 c w)"
| "perform E (Get_torrent_files a1) c w = answered Value (get_torrent_files E a1 c w)"
| "perform E (Get_torrent_pieces_state a1) c w = answered Value (get_torrent_pieces_state E a1 c w)"
| "perform E (Get_torrent_pieces_hashes a1) c w = answered Value (get_torrent_pieces_hashes E a1 c w)"
| "perform E (Pause a1) c w = answered Value (pause E a1 c w)"
| "perform E Pause_all c w = answered Value (pause_all E c w)"
| "perform E (Resume a1) c w = answered Value (resume E a1 c w)"
| "perform E Resume_all c w = answered Value (resume_all E c w)"
| "perform E (Delete a1) c w = answered Value (delete E a1 c w)"
| "perform E (Delete_permanently a1) c w = answered Value (delete_permanently E a1 c w)"
| "perform E (Recheck a1) c w = answered Value (recheck E a1 c w)"
| "perform E Recheck_all c w = answered Value (recheck_all E c w)"
| "perform E (Reannounce a1) c w = answered Value (reannounce E a1 c w)"
| "perform E Reannounce_all c w = answered Value (reannounce_all E c w)"
| "perform E (Download_from_link a1 a2) c w = answered Value (download_from_link E a1 a2 c w)"
| "perform E (Download_from_file a1 a2) c w = answered Value (download_from_file E a1 a2 c w)"
| "perform E (Add_trackers a1 a2) c w = answered Value (add_trackers E a1 a2 c w)"
| "perform E (Increase_priority a1) c w = answered Value (increase_priority E a1 c w)"
| "perform E (Decrease_priority a1) c w = answered Value (decrease_priority E a1 c w)"
| "perform E (Set_max_priority a1) c w = answered Value (set_max_priority E a1 c w)"
| "perform E (Set_min_priority a1) c w = answered Value (set_min_priority E a1 c w)"
| "perform E (Set_file_priority a1 a2 a3) c w = answered Value (set_file_priority E a1 a2 a3 c w)"
| "perform E (Get_torrent_download_limit a1) c w = answered Value (get_torrent_download_limit E a1 c w)"
| "perform E (Set_torrent_download_limit a1 a2) c w = answered Value (set_torrent_download_limit E a1 a2 c w)"
| "perform E (Set_torrent_share_limit a1 a2 a3) c w = answered Value (set_torrent_share_limit E a1 a2 a3 c w)"
| "perform E (Get_torrent_upload_limit a1) c w = answered Value (get_torrent_upload_limit E a1 c w)"
| "perform E (Set_torrent_upload_limit a1 a2) c w = answered Value (set_torrent_upload_limit E a1 a2 c w)"
| "perform E (Set_location a1 a2) c w = answered Value (set_location E a1 a2 c w)"
| "perform E (Set_torrent_name a1 a2) c w = answered Value (set_torrent_name E a1 a2 c w)"
| "perform E (Set_category a1 a2) c w = answered Value (set_category E a1 a2 c w)"
| "perform E (Add_category a1) c w = answered Value (add_category E a1 c w)"
| "perform E (Edit_category a1 a2) c w = answered Value (edit_category E a1 a2 c w)"
| "perform E (Remove_category a1) c w = answered Value (remove_category E a1 c w)"
| "perform E (Set_automatic_torrent a1 a2) c w = answered Value (set_automatic_torrent E a1 a2 c w)"
| "perform E (Set_automatic_torrent_all a1) c w = answered Value (set_automatic_torrent_all E a1 c w)"
| "perform E (Toggle_sequential_download a1) c w = answered Value (toggle_sequential_download E a1 c w)"
| "perform E (Toggle_first_last_piece_priority a1) c w = answered Value (toggle_first_last_piece_priority E a1 c w)"
| "perform E (Force_start a1 a2) c w = answered Value (force_start E a1 a2 c w)"
| "perform E (Set_super_seeding a1 a2) c w = answered Value (set_super_seeding E a1 a2 c w)"
| "perform E (Set_super_seeding_all a1) c w = answered Value (set_super_seeding_all E a1 c w)"
| "perform E (Add_folder a1) c w = answered Value (add_folder E a1 c w)"
| "perform E (Add_feed a1 a2) c w = answered Value (add_feed E a1 a2 c w)"
| "perform E (Remove_item a1) c w = answered Value (remove_item E a1 c w)"
| "perform E (Get_item a1) c w = answered Value (get_item E a1 c w)"
| "perform E (Set_rule a1 a2) c w = answered Value (set_rule E a1 a2 c w)"
| "perform E (Rename_rule a1 a2) c w = answered Value (rename_rule E a1 a2 c w)"
| "perform E (Remove_rule a1) c w = answered Value (remove_rule E a1 c w)"
| "perform E Get_rules c w = answered Value (get_rules E c w)"

text \<open>The calls that a run adds to the log of the world.\<close>

definition new_calls :: "world \<Rightarrow> 'a result \<Rightarrow> http_call list" where
  "new_calls w r = drop (length (sent w)) (sent (snd (snd r)))"

text \<open>\<open>s.startswith(p)\<close>.\<close>

definition startswith :: "string \<Rightarrow> string \<Rightarrow> bool" where
  "startswith s p = (take (length p) s = p)"

text \<open>
  A run keeps the URL of the client: the attribute \<open>url\<close> is as before, the log
  of the world has only grown, and every call added to it goes to an address that
  starts with that URL.
\<close>

definition keeps_url :: "client \<Rightarrow> world \<Rightarrow> 'a result \<Rightarrow> bool" where
  "keeps_url c w r =
     (url (fst (snd r)) = url c
      \<and> take (length (sent w)) (sent (snd (snd r))) = sent w
      \<and> list_all (\<lambda>rq. startswith (call_url rq) (url c)) (new_calls w r))"

section \<open>A concrete setting\<close>

text \<open>
  A server that gives the same response to every call, a JSON decoder that knows three
  documents, a client object as the constructor leaves it, and a world in which this
  client's session is the only one.
\<close>

definition example_loads :: "string \<Rightarrow> pyval option" where
  "example_loads s =
     (if s = ''{}'' then Some (PDict [])
      else if s = ''[]'' then Some (PList [])
      else if s = ''true'' then Some (PBool True)
      else None)"

definition example_env :: "response \<Rightarrow> env" where
  "example_env r =
     \<lparr>json_loads = example_loads, json_dumps = (\<lambda>v. ''null''),
      server = (\<lambda>history rq. Responds r)\<rparr>"

definition example_client :: "bool \<Rightarrow> client" where
  "example_client auth =
     \<lparr>url = ''http://localhost:8080/api/v2/'', is_authenticated = Some auth,
      session = Some 0\<rparr>"

definition example_world :: world where
  "example_world = \<lparr>sent = [], sessions = 1\<rparr>"

section \<open>Properties\<close>

subsection \<open>The log of calls\<close>

lemma new_calls_append [simp]:
  "new_calls w (x, c, w\<lparr>sent := sent w @ rs\<rparr>) = rs"
  by (simp add: new_calls_def)

lemma new_calls_same [simp]: "new_calls w (x, c, w) = []"
  by (simp add: new_calls_def)

subsection \<open>The request helper\<close>

lemma request_unauthenticated:
  "is_authenticated c = Some False \<Longrightarrow>
   request E endpoint http_method data kwargs c w = (Inl LoginRequired, c, w)"
  by (simp add: request_def)

lemma request_authenticated:
  assumes "is_authenticated c = Some True" and "session c = Some s"
  shows "request E endpoint http_method data kwargs c w =
     (let rq = (if http_method = ''get'' then SessionGet s (url c @ endpoint) kwargs
                else SessionPost s (url c @ endpoint) data kwargs);
          w' = w\<lparr>sent := sent w @ [rq]\<rparr>
      in case server E (sent w) rq of
           Fails e \<Rightarrow> (Inl e, c, w')
         | Responds r \<Rightarrow>
             (case raise_for_status r of
                Some e \<Rightarrow> (Inl e, c, w')
              | None \<Rightarrow> (decode_body E (resp_text r), c, w')))"
  using assms by (simp add: request_def dispatch_def Let_def)

lemma request_new_calls:
  assumes "is_authenticated c = Some True" and "session c = Some s"
  shows "new_calls w (request E endpoint http_method data kwargs c w) =
     [if http_method = ''get'' then SessionGet s (url c @ endpoint) kwargs
      else SessionPost s (url c @ endpoint) data kwargs]"
  using assms
  by (simp add: request_authenticated Let_def split: reply.split option.split)

lemma request_client: "fst (snd (request E endpoint http_method data kwargs c w)) = c"
  by (simp add: request_def Let_def split: option.split reply.split prod.split)

lemma get_client: "fst (snd (get E endpoint kwargs c w)) = c"
  by (simp add: get_def request_client)

lemma post_client: "fst (snd (post E endpoint data kwargs c w)) = c"
  by (simp add: post_def request_client)

lemma example_facts:
  "is_authenticated (example_client auth) = Some auth"
  "session (example_client auth) = Some 0"
  "url (example_client auth) = ''http://localhost:8080/api/v2/''"
  "sent example_world = []"
  "server (example_env r) history rq = Responds r"
  "json_loads (example_env r) = example_loads"
  by (simp_all add: example_client_def example_world_def example_env_def)

text \<open>
  C1.  On a client that is not authenticated, \<open>_request\<close> raises
  \<open>LoginRequired\<close> for every endpoint and every method, and leaves the client and
  the world as they are: no call is sent.  So do \<open>_get\<close> and \<open>_post\<close>, for
  keyword arguments that the interpreter lets through to \<open>_request\<close>; whatever
  the keyword arguments, they send no call.
\<close>

theorem login_required:
  assumes "is_authenticated c = Some False"
  shows "request E endpoint http_method data kwargs c w = (Inl LoginRequired, c, w)
       \<and> new_calls w (request E endpoint http_method data kwargs c w) = []
       \<and> (''method'' \<notin> set (map fst kwargs) \<longrightarrow>
            get E endpoint kwargs c w = (Inl LoginRequired, c, w)
          \<and> post E endpoint data kwargs c w = (Inl LoginRequired, c, w))
       \<and> new_calls w (get E endpoint kwargs c w) = []
       \<and> new_calls w (post E endpoint data kwargs c w) = []"
  using assms by (simp add: request_unauthenticated get_def post_def)

theorem login_required_witness:
  "is_authenticated (example_client False) = Some False
   \<and> request (example_env \<lparr>status_code = 200, resp_text = ''[]''\<rparr>) ''app/version'' ''get'' PNone []
        (example_client False) example_world
      = (Inl LoginRequired, example_client False, example_world)
   \<and> get (example_env \<lparr>status_code = 200, resp_text = ''[]''\<rparr>) ''app/version'' []
        (example_client False) example_world
      = (Inl LoginRequired, example_client False, example_world)
   \<and> post (example_env \<lparr>status_code = 200, resp_text = ''[]''\<rparr>) ''app/version'' PNone []
        (example_client False) example_world
      = (Inl LoginRequired, example_client False, example_world)"
  using login_required [where c = "example_client False" and kwargs = "[]"
      and E = "example_env \<lparr>status_code = 200, resp_text = ''[]''\<rparr>"
      and endpoint = "''app/version''" and http_method = "''get''" and data = PNone
      and w = example_world]
  by (simp add: example_facts)

text \<open>
  C7.  On an authenticated client \<open>_request\<close> sends exactly one call: with
  \<open>session.get\<close> when the method is the string \<open>get\<close>, and with
  \<open>session.post\<close>, carrying the data, for every other method.  \<open>_get\<close> runs
  \<open>_request\<close> with the method \<open>get\<close> and \<open>_post\<close> runs it with the method
  \<open>post\<close>.
\<close>

theorem request_routes_by_method:
  assumes "is_authenticated c = Some True" and "session c = Some s"
  shows "(http_method = ''get'' \<longrightarrow>
            new_calls w (request E endpoint http_method data kwargs c w)
              = [SessionGet s (url c @ endpoint) kwargs])
       \<and> (http_method \<noteq> ''get'' \<longrightarrow>
            new_calls w (request E endpoint http_method data kwargs c w)
              = [SessionPost s (url c @ endpoint) data kwargs])
       \<and> (''method'' \<notin> set (map fst kwargs) \<longrightarrow>
            get E endpoint kwargs c w
              = request E endpoint ''get'' (dict_get kwargs ''data'')
                  (AList.delete ''data'' kwargs) c w
          \<and> new_calls w (get E endpoint kwargs c w)
              = [SessionGet s (url c @ endpoint) (AList.delete ''data'' kwargs)]
          \<and> post E endpoint data kwargs c w = request E endpoint ''post'' data kwargs c w
          \<and> new_calls w (post E endpoint data kwargs c w)
              = [SessionPost s (url c @ endpoint) data kwargs])"
  using assms by (simp add: request_new_calls get_def post_def)

theorem request_routes_by_method_witness:
  "is_authenticated (example_client True) = Some True
   \<and> session (example_client True) = Some 0
   \<and> new_calls example_world
        (request (example_env \<lparr>status_code = 200, resp_text = ''[]''\<rparr>) ''torrents/pause'' ''put''
           (PDict [(''hashes'', PStr ''all'')]) [] (example_client True) example_world)
      = [SessionPost 0 ''http://localhost:8080/api/v2/torrents/pause''
           (PDict [(''hashes'', PStr ''all'')]) []]
   \<and> new_calls example_world
        (get (example_env \<lparr>status_code = 200, resp_text = ''[]''\<rparr>) ''torrents/pause''
           [] (example_client True) example_world)
      = [SessionGet 0 ''http://localhost:8080/api/v2/torrents/pause'' []]
   \<and> new_calls example_world
        (post (example_env \<lparr>status_code = 200, resp_text = ''[]''\<rparr>) ''torrents/pause''
           (PDict [(''hashes'', PStr ''all'')]) [] (example_client True) example_world)
      = [SessionPost 0 ''http://localhost:8080/api/v2/torrents/pause''
           (PDict [(''hashes'', PStr ''all'')]) []]"
  using request_routes_by_method [where c = "example_client True" and s = 0
      and kwargs = "[]" and E = "example_env \<lparr>status_code = 200, resp_text = ''[]''\<rparr>"
      and endpoint = "''torrents/pause''" and http_method = "''put''"
      and data = "PDict [(''hashes'', PStr ''all'')]" and w = example_world]
  by (simp add: example_facts request_new_calls [where s = 0])

text \<open>
  C3.  When the response to the call of an authenticated \<open>_request\<close> has a status
  from 400 to 599, \<open>_request\<close> raises the HTTP error of \<open>raise_for_status\<close>
  and returns nothing; the call was sent once and is not repeated, and the client is
  unchanged.
\<close>

theorem request_raises_http_error:
  assumes "is_authenticated c = Some True" and "session c = Some s"
    and "rq = (if http_method = ''get'' then SessionGet s (url c @ endpoint) kwargs
               else SessionPost s (url c @ endpoint) data kwargs)"
    and "server E (sent w) rq = Responds r"
    and "400 \<le> status_code r" and "status_code r < 600"
  shows "request E endpoint http_method data kwargs c w
           = (Inl (HTTPError (status_code r)), c, w\<lparr>sent := sent w @ [rq]\<rparr>)"
  using assms by (simp add: request_authenticated raise_for_status_def Let_def)

theorem request_raises_http_error_witness:
  "is_authenticated (example_client True) = Some True
   \<and> session (example_client True) = Some 0
   \<and> server (example_env \<lparr>status_code = 404, resp_text = ''Not Found''\<rparr>) (sent example_world)
        (SessionGet 0 ''http://localhost:8080/api/v2/app/version'' [])
      = Responds \<lparr>status_code = 404, resp_text = ''Not Found''\<rparr>
   \<and> request (example_env \<lparr>status_code = 404, resp_text = ''Not Found''\<rparr>) ''app/version''
        ''get'' PNone [] (example_client True) example_world
      = (Inl (HTTPError 404), example_client True,
         example_world\<lparr>sent := [SessionGet 0 ''http://localhost:8080/api/v2/app/version'' []]\<rparr>)"
  using request_raises_http_error [where c = "example_client True" and s = 0
      and kwargs = "[]" and E = "example_env \<lparr>status_code = 404, resp_text = ''Not Found''\<rparr>"
      and endpoint = "''app/version''" and http_method = "''get''" and data = PNone
      and w = example_world and r = "\<lparr>status_code = 404, resp_text = ''Not Found''\<rparr>"
      and rq = "SessionGet 0 ''http://localhost:8080/api/v2/app/version'' []"]
  by (simp add: example_facts)


lemma example_loads_facts:
  "example_loads ''{}'' = Some (PDict [])"
  "example_loads ''[]'' = Some (PList [])"
  "example_loads ''Ok.'' = None"
  "example_loads [] = None"
  by (simp_all add: example_loads_def)



lemma delete_no_key: "(k, v) \<notin> set (AList.delete k al)"
  by (induction al) auto

text \<open>
  C10.  A call that goes through \<open>_get\<close> never carries data: every call it sends
  is a \<open>session.get\<close>, which has no data, and \<open>data\<close> is not among its keyword
  arguments.  So \<open>get_item\<close> does exactly what a plain \<open>_get\<close> of
  \<open>rss/items\<close> does, whatever \<open>withData\<close> is.
\<close>

theorem get_drops_data:
  "(\<forall>rq \<in> set (new_calls w (get E endpoint kwargs c w)).
      call_data rq = None \<and> ''data'' \<notin> fst ` set (call_kwargs rq))
   \<and> get_item E withData c w = get E ''rss/items'' [] c w"
proof -
  have a: "new_calls w (request E endpoint ''get'' d kw c w) = [] \<or>
        (\<exists>s. new_calls w (request E endpoint ''get'' d kw c w)
               = [SessionGet s (url c @ endpoint) kw])"
    for d kw
    by (simp add: request_def dispatch_def Let_def split: option.split reply.split)
  have b: "request E ep ''get'' d kw c w = request E ep ''get'' d' kw c w"
    for d d' kw ep
    by (simp add: request_def Let_def split: option.split)
  show ?thesis
    using a [of "dict_get kwargs ''data''" "AList.delete ''data'' kwargs"]
      b [of "''rss/items''" "PDict [(''withData'', withData)]" "[]" PNone]
    by (auto simp add: get_def get_item_def dict_get_def delete_no_key)
qed

theorem get_drops_data_witness:
  "new_calls example_world
     (get (example_env \<lparr>status_code = 200, resp_text = ''[]''\<rparr>) ''rss/items''
        [(''data'', PDict [(''withData'', PBool True)])] (example_client True) example_world)
     = [SessionGet 0 ''http://localhost:8080/api/v2/rss/items'' []]
   \<and> call_data (SessionGet 0 ''http://localhost:8080/api/v2/rss/items'' []) = None
   \<and> get_item (example_env \<lparr>status_code = 200, resp_text = ''[]''\<rparr>) (PBool True)
        (example_client True) example_world
     = get (example_env \<lparr>status_code = 200, resp_text = ''[]''\<rparr>) ''rss/items'' []
        (example_client True) example_world"
  using get_drops_data [where w = example_world and c = "example_client True"
      and E = "example_env \<lparr>status_code = 200, resp_text = ''[]''\<rparr>"
      and endpoint = "''rss/items''" and withData = "PBool True"
      and kwargs = "[(''data'', PDict [(''withData'', PBool True)])]"]
  by (simp add: get_def request_new_calls [where s = 0] example_facts)

subsection \<open>Validation in \<open>set_file_priority\<close>\<close>

text \<open>
  C9.  \<open>set_file_priority\<close> raises \<open>ValueError\<close> for every priority that is
  not one of 0, 1, 2 and 7, and \<open>TypeError\<close> for every priority among them with a
  file id that is not an integer; in both cases the client and the world are as
  before, so that nothing was posted.
\<close>

theorem set_file_priority_validates:
  "(\<not> py_in priority [0, 1, 2, 7] \<longrightarrow>
      set_file_priority E infohash file_id priority c w = (Inl ValueError, c, w))
   \<and> (py_in priority [0, 1, 2, 7] \<and> \<not> is_int file_id \<longrightarrow>
      set_file_priority E infohash file_id priority c w = (Inl TypeError, c, w))"
  by (simp add: set_file_priority_def)

theorem set_file_priority_validates_witness:
  "\<not> py_in (PInt 3) [0, 1, 2, 7]
   \<and> set_file_priority (example_env \<lparr>status_code = 200, resp_text = ''[]''\<rparr>) (PStr ''AB'')
        (PInt 0) (PInt 3) (example_client True) example_world
      = (Inl ValueError, example_client True, example_world)
   \<and> py_in (PInt 7) [0, 1, 2, 7]
   \<and> \<not> is_int (PStr ''0'')
   \<and> set_file_priority (example_env \<lparr>status_code = 200, resp_text = ''[]''\<rparr>) (PStr ''AB'')
        (PStr ''0'') (PInt 7) (example_client True) example_world
      = (Inl TypeError, example_client True, example_world)"
  using
    set_file_priority_validates [where priority = "PInt 3" and file_id = "PInt 0"
      and infohash = "PStr ''AB''" and c = "example_client True" and w = example_world
      and E = "example_env \<lparr>status_code = 200, resp_text = ''[]''\<rparr>"]
    set_file_priority_validates [where priority = "PInt 7" and file_id = "PStr ''0''"
      and infohash = "PStr ''AB''" and c = "example_client True" and w = example_world
      and E = "example_env \<lparr>status_code = 200, resp_text = ''[]''\<rparr>"]
  by (simp add: py_in_def)

subsection \<open>Info hashes\<close>

lemma lower_all_strings: "lower_all (map PStr hs) = Inr (map lower hs)"
  by (induction hs) simp_all

lemma foldl_bar_prefix:
  "foldl (\<lambda>acc x. acc @ sep @ f x) (a @ b) hs = a @ foldl (\<lambda>acc x. acc @ sep @ f x) b hs"
  by (induction hs arbitrary: b) simp_all

lemma py_join_foldl:
  "py_join sep (map f (h # hs)) = foldl (\<lambda>acc x. acc @ sep @ f x) (f h) hs"
proof (induction hs arbitrary: h)
  case Nil
  show ?case by simp
next
  case (Cons g gs)
  have "py_join sep (map f (h # g # gs)) = f h @ sep @ py_join sep (map f (g # gs))"
    by simp
  also have "\<dots> = f h @ sep @ foldl (\<lambda>acc x. acc @ sep @ f x) (f g) gs"
    by (simp only: Cons.IH)
  also have "\<dots> = foldl (\<lambda>acc x. acc @ sep @ f x) ((f h @ sep) @ f g) gs"
    by (simp only: foldl_bar_prefix append_assoc)
  finally show ?case by simp
qed

lemma py_join_hashes: "py_join ''|'' (map lower hs) = hashes_joined hs"
proof (cases hs)
  case Nil
  then show ?thesis by simp
next
  case (Cons h t)
  then show ?thesis using py_join_foldl [of "''|''" lower h t] by simp
qed

text \<open>
  C5.  For a list of strings \<open>_process_infohash_list\<close> returns the dictionary whose
  only key \<open>hashes\<close> holds the lowercased hashes joined by a bar (the empty string
  for the empty list); for a single string it returns the dictionary whose only key
  \<open>hashes\<close> holds the lowercased string.
\<close>

theorem process_infohash_list_spec:
  "process_infohash_list (PList (map PStr hs)) = Inr [(''hashes'', PStr (hashes_joined hs))]
   \<and> hashes_joined [] = ''''
   \<and> process_infohash_list (PStr s) = Inr [(''hashes'', PStr (lower s))]"
  by (simp add: lower_all_strings py_join_hashes)

lemma lower_examples:
  "lower ''AbC'' = ''abc'' \<and> lower ''0F'' = ''0f'' \<and> lower ''xyZ'' = ''xyz''
   \<and> lower ''DEADbeef'' = ''deadbeef''"
  by code_simp

theorem process_infohash_list_spec_witness:
  "process_infohash_list (PList (map PStr [''AbC'', ''0F'', ''xyZ'']))
     = Inr [(''hashes'', PStr ''abc|0f|xyz'')]
   \<and> process_infohash_list (PStr ''DEADbeef'') = Inr [(''hashes'', PStr ''deadbeef'')]"
  using process_infohash_list_spec [of "[''AbC'', ''0F'', ''xyZ'']" "''DEADbeef''"]
  by (simp add: lower_examples)

subsection \<open>Old argument names\<close>

lemma torrents_params_snoc:
  "torrents_params (fs @ [(n, v)]) =
     AList.update (if n = ''status'' then ''filter'' else n) v (torrents_params fs)"
  by (simp add: torrents_params_def)

lemma map_of_snoc_fresh:
  "n \<notin> fst ` set fs \<Longrightarrow> map_of (fs @ [(n, v)]) k = (if k = n then Some v else map_of fs k)"
  by (induction fs) auto

lemma torrents_params_lookup:
  "distinct (map fst filters) \<Longrightarrow>
   \<not> (''status'' \<in> fst ` set filters \<and> ''filter'' \<in> fst ` set filters) \<Longrightarrow>
   map_of (torrents_params filters) k =
     (if k = ''status'' then None
      else if k = ''filter''
           then (case map_of filters ''status'' of
                   Some v \<Rightarrow> Some v | None \<Rightarrow> map_of filters ''filter'')
      else map_of filters k)"
proof (induction filters arbitrary: k rule: rev_induct)
  case Nil
  show ?case by (simp add: torrents_params_def)
next
  case (snoc x fs)
  obtain n v where x: "x = (n, v)" by (cases x)
  from snoc.prems x have fresh: "n \<notin> fst ` set fs" and d: "distinct (map fst fs)"
    by auto
  from snoc.prems
  have nb: "\<not> (''status'' \<in> fst ` set fs \<and> ''filter'' \<in> fst ` set fs)"
    by auto
  note IH = snoc.IH [OF d nb]
  have none: "a \<notin> fst ` set fs \<Longrightarrow> map_of fs a = None" for a
    by (simp add: map_of_eq_None_iff)
  show ?case
  proof (cases "n = ''status''")
    case True
    with snoc.prems x have "''filter'' \<notin> fst ` set fs" by auto
    with True fresh show ?thesis
      by (simp add: x torrents_params_snoc update_conv' map_of_snoc_fresh IH none
          del: map_of_append split: option.split)
  next
    case False
    show ?thesis
    proof (cases "n = ''filter''")
      case True
      with snoc.prems x have "''status'' \<notin> fst ` set fs" by auto
      with True fresh show ?thesis
        by (simp add: x torrents_params_snoc update_conv' map_of_snoc_fresh IH none
            del: map_of_append split: option.split)
    next
      case nf: False
      with False fresh show ?thesis
        by (simp add: x torrents_params_snoc update_conv' map_of_snoc_fresh IH
            del: map_of_append split: option.split)
    qed
  qed
qed

lemma convert_old_options_unfold:
  "convert_old_options kwargs =
     (if truthy (dict_get kwargs ''save_path'') \<and> \<not> truthy (dict_get kwargs ''savepath'')
      then AList.update ''savepath'' (dict_get kwargs ''save_path'') kwargs else kwargs)"
  by (simp add: convert_old_options_def)

lemma truthy_dict_get:
  "truthy (dict_get d k) \<Longrightarrow> map_of d k = Some (dict_get d k)"
  by (cases "map_of d k") (simp_all add: dict_get_def)

lemma convert_old_options_lookup:
  "map_of (convert_old_options kwargs) k =
     (if k = ''savepath'' \<and> truthy (dict_get kwargs ''save_path'')
         \<and> \<not> truthy (dict_get kwargs ''savepath'')
      then map_of kwargs ''save_path'' else map_of kwargs k)"
  by (simp add: convert_old_options_unfold update_conv' truthy_dict_get)

lemma torrents_new_calls:
  "is_authenticated c = Some True \<Longrightarrow> session c = Some s \<Longrightarrow>
   new_calls w (torrents E filters c w) =
     [SessionGet s (url c @ ''torrents/info'') [(''params'', PDict (torrents_params filters))]]"
  by (simp add: torrents_def get_def request_new_calls)

lemma download_from_link_new_calls:
  "is_authenticated c = Some True \<Longrightarrow> session c = Some s \<Longrightarrow> link_urls link = Inr urls \<Longrightarrow>
   new_calls w (download_from_link E link kwargs c w) =
     [SessionPost s (url c @ ''torrents/add'')
        (PDict (AList.update ''urls'' urls (convert_old_options kwargs)))
        [(''files'', PDict [(''_dummy'', PTuple [PNone, PStr ''_dummy''])])]]"
  by (simp add: download_from_link_def raising_def post_def request_new_calls Let_def)

text \<open>
  C6, as the code has it.  \<open>torrents\<close> sends its keyword arguments as the
  \<open>params\<close> of one GET.  When \<open>status\<close> and \<open>filter\<close> are not both among
  them: no \<open>status\<close> is sent, \<open>filter\<close> has the value given for \<open>status\<close>,
  or else the one given for \<open>filter\<close>, and every other keyword has the value given
  for it.  \<open>download_from_link\<close> posts its keyword arguments with \<open>urls\<close> set from
  the link: \<open>savepath\<close> has the value of \<open>save_path\<close> exactly when
  \<open>save_path\<close> is set and true and \<open>savepath\<close> is not, and every other keyword
  has the value given for it.
\<close>

theorem old_argument_names:
  "(distinct (map fst filters)
      \<and> \<not> (''status'' \<in> fst ` set filters \<and> ''filter'' \<in> fst ` set filters) \<longrightarrow>
      map_of (torrents_params filters) k =
        (if k = ''status'' then None
         else if k = ''filter''
              then (case map_of filters ''status'' of
                      Some v \<Rightarrow> Some v | None \<Rightarrow> map_of filters ''filter'')
         else map_of filters k))
   \<and> map_of (convert_old_options kwargs) k =
        (if k = ''savepath'' \<and> truthy (dict_get kwargs ''save_path'')
            \<and> \<not> truthy (dict_get kwargs ''savepath'')
         then map_of kwargs ''save_path'' else map_of kwargs k)
   \<and> (is_authenticated c = Some True \<and> session c = Some s \<longrightarrow>
        new_calls w (torrents E filters c w) =
          [SessionGet s (url c @ ''torrents/info'')
             [(''params'', PDict (torrents_params filters))]]
      \<and> (link_urls link = Inr urls \<longrightarrow>
           new_calls w (download_from_link E link kwargs c w) =
             [SessionPost s (url c @ ''torrents/add'')
                (PDict (AList.update ''urls'' urls (convert_old_options kwargs)))
                [(''files'', PDict [(''_dummy'', PTuple [PNone, PStr ''_dummy''])])]]))"
  using torrents_params_lookup [of filters k] convert_old_options_lookup [of kwargs k]
    torrents_new_calls [of c s w E filters]
    download_from_link_new_calls [of c s link urls w E kwargs]
  by blast

theorem old_argument_names_witness:
  "distinct (map fst [(''status'', PStr ''paused''), (''category'', PStr ''tv'')])
   \<and> map_of (torrents_params [(''status'', PStr ''paused''), (''category'', PStr ''tv'')])
        ''filter'' = Some (PStr ''paused'')
   \<and> map_of (convert_old_options [(''save_path'', PStr ''/data''), (''category'', PStr ''tv'')])
        ''savepath'' = Some (PStr ''/data'')
   \<and> is_authenticated (example_client True) = Some True
   \<and> session (example_client True) = Some 0
   \<and> link_urls (PStr ''magnet:x'') = Inr (PStr ''magnet:x'')
   \<and> new_calls example_world
        (download_from_link (example_env \<lparr>status_code = 200, resp_text = []\<rparr>)
           (PStr ''magnet:x'') [(''save_path'', PStr ''/data''), (''category'', PStr ''tv'')]
           (example_client True) example_world)
      = [SessionPost 0 ''http://localhost:8080/api/v2/torrents/add''
           (PDict [(''save_path'', PStr ''/data''), (''category'', PStr ''tv''),
                   (''savepath'', PStr ''/data''), (''urls'', PStr ''magnet:x'')])
           [(''files'', PDict [(''_dummy'', PTuple [PNone, PStr ''_dummy''])])]]"
  using old_argument_names [where k = "''filter''" and c = "example_client True" and s = 0
      and filters = "[(''status'', PStr ''paused''), (''category'', PStr ''tv'')]"
      and kwargs = "[(''save_path'', PStr ''/data''), (''category'', PStr ''tv'')]"
      and w = example_world and E = "example_env \<lparr>status_code = 200, resp_text = []\<rparr>"
      and link = "PStr ''magnet:x''" and urls = "PStr ''magnet:x''"]
    old_argument_names [where k = "''savepath''" and c = "example_client True" and s = 0
      and filters = "[(''status'', PStr ''paused''), (''category'', PStr ''tv'')]"
      and kwargs = "[(''save_path'', PStr ''/data''), (''category'', PStr ''tv'')]"
      and w = example_world and E = "example_env \<lparr>status_code = 200, resp_text = []\<rparr>"
      and link = "PStr ''magnet:x''" and urls = "PStr ''magnet:x''"]
  by (simp add: example_facts convert_old_options_unfold dict_get_def)

text \<open>
  The claim C6 as it is written has \<open>torrents\<close> send every keyword but
  \<open>status\<close> unchanged.  Called with \<open>filter\<close> and then \<open>status\<close>, it sends
  one \<open>filter\<close>, with the value of \<open>status\<close>: the value given for \<open>filter\<close>
  is lost.
\<close>

theorem torrents_filter_lost_counterexample:
  "distinct (map fst [(''filter'', PStr ''all''), (''status'', PStr ''paused'')])
   \<and> torrents_params [(''filter'', PStr ''all''), (''status'', PStr ''paused'')]
       = [(''filter'', PStr ''paused'')]
   \<and> map_of (torrents_params [(''filter'', PStr ''all''), (''status'', PStr ''paused'')])
        ''filter''
       \<noteq> map_of [(''filter'', PStr ''all''), (''status'', PStr ''paused'')] ''filter''"
  by (simp add: torrents_params_def)

subsection \<open>The URL of the client\<close>

lemma keeps_url_raise [simp]: "keeps_url c w (Inl e, c, w)"
  by (simp add: keeps_url_def new_calls_def)

lemma keeps_url_one:
  "url c' = url c \<Longrightarrow>
   keeps_url c w (x, c', w\<lparr>sent := sent w @ [rq]\<rparr>) = startswith (call_url rq) (url c)"
  by (simp add: keeps_url_def new_calls_def)

lemma startswith_append [simp]: "startswith (p @ s) p"
  by (simp add: startswith_def)

lemma keeps_url_request [simp]: "keeps_url c w (request E endpoint http_method data kwargs c w)"
  by (simp add: request_def dispatch_def Let_def keeps_url_one
      split: option.split reply.split)

lemma keeps_url_get [simp]: "keeps_url c w (get E endpoint kwargs c w)"
  by (simp add: get_def)

lemma keeps_url_post [simp]: "keeps_url c w (post E endpoint data kwargs c w)"
  by (simp add: post_def)

lemma keeps_url_raising:
  "(\<And>a. keeps_url c w (f a c w)) \<Longrightarrow> keeps_url c w (raising x f c w)"
  by (cases x) (simp_all add: raising_def)

lemma keeps_url_login [simp]: "keeps_url c w (login E username password c w)"
  by (simp add: login_def dispatch_def Let_def keeps_url_def new_calls_def split: reply.split)

lemma keeps_url_logout [simp]: "keeps_url c w (logout E c w)"
proof -
  obtain x c' w' where g: "get E ''auth/logout'' [] c w = (x, c', w')"
    by (cases "get E ''auth/logout'' [] c w")
  have c': "c' = c" using get_client [of E "''auth/logout''" "[]" c w] g by simp
  have k: "keeps_url c w (x, c, w')"
    using keeps_url_get [of c w E "''auth/logout''" "[]"] g c' by simp
  then have "keeps_url c w (y, c\<lparr>is_authenticated := Some False\<rparr>, w')" for y :: "exn + pyval"
    by (simp add: keeps_url_def new_calls_def)
  with g c' k show ?thesis
    by (cases x) (simp_all add: logout_def)
qed

lemma init_sends_one:
  "init E (url c) w' = (x, p, w'') \<Longrightarrow>
   \<exists>rq. sent w'' = sent w' @ [rq] \<and> startswith (call_url rq) (url c)"
  by (auto simp add: init_def dispatch_def Let_def startswith_def split: reply.splits if_splits)

lemma keeps_url_preferences [simp]: "keeps_url c w (preferences E c w)"
proof -
  obtain x c' w' where g: "get E ''app/preferences'' [] c w = (x, c', w')"
    by (cases "get E ''app/preferences'' [] c w")
  have c': "c' = c" using get_client [of E "''app/preferences''" "[]" c w] g by simp
  have k: "keeps_url c w (x, c, w')"
    using keeps_url_get [of c w E "''app/preferences''" "[]"] g c' by simp
  show ?thesis
  proof (cases x)
    case (Inl e)
    with g c' k show ?thesis by (simp add: preferences_def keeps_url_def new_calls_def)
  next
    case (Inr fetched)
    show ?thesis
    proof (cases "\<exists>auth s. is_authenticated c = Some auth \<and> session c = Some s")
      case False
      with g c' k Inr show ?thesis
        by (auto simp add: preferences_def keeps_url_def new_calls_def split: option.split)
    next
      case True
      then obtain auth s where a: "is_authenticated c = Some auth" "session c = Some s"
        by blast
      obtain y p w'' where i: "init E (url c) w' = (y, p, w'')"
        by (cases "init E (url c) w'")
      from init_sends_one [OF i] obtain rq
        where rq: "sent w'' = sent w' @ [rq]" "startswith (call_url rq) (url c)"
        by blast
      from k have t: "take (length (sent w)) (sent w') = sent w"
        and l: "list_all (\<lambda>rq. startswith (call_url rq) (url c))
                  (drop (length (sent w)) (sent w'))"
        by (simp_all add: keeps_url_def new_calls_def)
      from t have le: "length (sent w) \<le> length (sent w')"
        by (metis length_take min.cobounded1)
      have "keeps_url c w (z, c, w'')" for z :: "exn + proxy"
        using t l le rq by (simp add: keeps_url_def new_calls_def)
      with g c' Inr a i show ?thesis
        by (cases y) (simp_all add: preferences_def)
    qed
  qed
qed

lemma keeps_url_answered [simp]: "keeps_url c w (answered f r) = keeps_url c w r"
  by (cases r) (simp add: answered_def keeps_url_def new_calls_def)

lemmas wrapper_defs =
  qbittorrent_version_def api_version_def shutdown_def set_preferences_def
  get_default_save_path_def get_log_def get_peer_log_def get_sync_maindata_def
  get_sync_torrentPeers_def global_transfer_info_def get_alternative_speed_status_def
  toggle_alternative_speed_def get_global_download_limit_def set_global_download_limit_def
  get_global_upload_limit_def set_global_upload_limit_def torrents_def get_torrent_def
  get_torrent_trackers_def get_torrent_webseeds_def get_torrent_files_def
  get_torrent_pieces_state_def get_torrent_pieces_hashes_def pause_def pause_all_def
  resume_def resume_all_def delete_def delete_permanently_def recheck_def recheck_all_def
  reannounce_def reannounce_all_def download_from_link_def download_from_file_def
  add_trackers_def increase_priority_def decrease_priority_def set_max_priority_def
  set_min_priority_def set_file_priority_def get_torrent_download_limit_def
  set_torrent_download_limit_def set_torrent_share_limit_def get_torrent_upload_limit_def
  set_torrent_upload_limit_def set_location_def set_torrent_name_def set_category_def
  add_category_def edit_category_def remove_category_def set_automatic_torrent_def
  set_automatic_torrent_all_def toggle_sequential_download_def
  toggle_first_last_piece_priority_def force_start_def set_super_seeding_def
  set_super_seeding_all_def add_folder_def add_feed_def remove_item_def get_item_def
  set_rule_def rename_rule_def remove_rule_def get_rules_def

lemma keeps_url_perform: "keeps_url c w (perform E call c w)"
  by (cases call) (simp_all add: wrapper_defs keeps_url_raising Let_def)

lemma init_url:
  "url (fst (snd (init E url0 w))) =
     (if endswith url0 ''/api/v2/'' then url0 else url0 @ ''/api/v2/'')"
  by (simp add: init_def dispatch_def Let_def split: reply.split)

lemma endswith_append: "endswith (s @ suf) suf"
  by (simp add: endswith_def)

text \<open>
  C8.  The constructor leaves in \<open>url\<close> the URL it was given, with
  \<open>/api/v2/\<close> appended exactly when the URL did not end with it, whether it
  returns or raises; so \<open>url\<close> ends with \<open>/api/v2/\<close>.  No method or property
  changes \<open>url\<close>.  Every call that \<open>_request\<close> sends goes to \<open>url\<close> followed
  by the endpoint, and every call that any method or property sends goes to an
  address that starts with \<open>url\<close>.
\<close>

theorem url_invariant:
  "url (fst (snd (init E url0 w))) =
     (if endswith url0 ''/api/v2/'' then url0 else url0 @ ''/api/v2/'')
   \<and> endswith (url (fst (snd (init E url0 w)))) ''/api/v2/''
   \<and> url (fst (snd (perform E call c w))) = url c
   \<and> (\<forall>rq \<in> set (new_calls w (request E endpoint http_method data kwargs c w)).
         call_url rq = url c @ endpoint)
   \<and> (\<forall>rq \<in> set (new_calls w (perform E call c w)). startswith (call_url rq) (url c))"
proof -
  have r: "\<forall>rq \<in> set (new_calls w (request E endpoint http_method data kwargs c w)).
         call_url rq = url c @ endpoint"
    by (simp add: request_def dispatch_def Let_def new_calls_def
        split: option.split reply.split)
  have e: "endswith (url (fst (snd (init E url0 w)))) ''/api/v2/''"
    using endswith_append [of url0 "''/api/v2/''"] by (simp add: init_url)
  from keeps_url_perform [of c w E call] r e show ?thesis
    by (simp add: init_url keeps_url_def list_all_iff)
qed

lemma example_init:
  "init (example_env \<lparr>status_code = 404, resp_text = []\<rparr>) ''http://localhost:8080''
     example_world
   = (Inl RuntimeError,
      \<lparr>url = ''http://localhost:8080/api/v2/'', is_authenticated = Some False, session = None\<rparr>,
      \<lparr>sent = [SessionGet 1 ''http://localhost:8080/api/v2/app/preferences'' []],
       sessions = 2\<rparr>)"
  by (simp add: init_def dispatch_def example_env_def example_world_def endswith_def Let_def)

lemma example_logout:
  "perform (example_env \<lparr>status_code = 200, resp_text = ''[]''\<rparr>) Logout
     (example_client True) example_world
   = (Inr (Value (PList [])),
      \<lparr>url = ''http://localhost:8080/api/v2/'', is_authenticated = Some False,
       session = Some 0\<rparr>,
      \<lparr>sent = [SessionGet 0 ''http://localhost:8080/api/v2/auth/logout'' []], sessions = 1\<rparr>)"
  by (simp add: logout_def get_def request_authenticated [where s = 0] example_facts
      raise_for_status_def decode_body_def example_loads_facts answered_def Let_def)
     (simp add: example_client_def example_world_def)

theorem url_invariant_witness:
  "url (fst (snd (init (example_env \<lparr>status_code = 404, resp_text = []\<rparr>)
                    ''http://localhost:8080'' example_world)))
     = ''http://localhost:8080/api/v2/''
   \<and> fst (init (example_env \<lparr>status_code = 404, resp_text = []\<rparr>)
                    ''http://localhost:8080'' example_world) = Inl RuntimeError
   \<and> endswith ''http://localhost:8080/api/v2/'' ''/api/v2/''
   \<and> url (fst (snd (perform (example_env \<lparr>status_code = 200, resp_text = ''[]''\<rparr>) Logout
                      (example_client True) example_world)))
     = ''http://localhost:8080/api/v2/''
   \<and> new_calls example_world
        (perform (example_env \<lparr>status_code = 200, resp_text = ''[]''\<rparr>) Logout
           (example_client True) example_world)
     = [SessionGet 0 ''http://localhost:8080/api/v2/auth/logout'' []]
   \<and> startswith ''http://localhost:8080/api/v2/auth/logout'' ''http://localhost:8080/api/v2/''"
proof -
  note init_facts = url_invariant [where E = "example_env \<lparr>status_code = 404, resp_text = []\<rparr>"
      and ?url0.0 = "''http://localhost:8080''" and w = example_world
      and call = Logout and c = "example_client True" and endpoint = "''auth/logout''"
      and http_method = "''get''" and data = PNone and kwargs = "[]"]
  note logout_facts = url_invariant [where E = "example_env \<lparr>status_code = 200, resp_text = ''[]''\<rparr>"
      and ?url0.0 = "''http://localhost:8080''" and w = example_world
      and call = Logout and c = "example_client True" and endpoint = "''auth/logout''"
      and http_method = "''get''" and data = PNone and kwargs = "[]"]
  have sent: "new_calls example_world
        (perform (example_env \<lparr>status_code = 200, resp_text = ''[]''\<rparr>) Logout
           (example_client True) example_world)
     = [SessionGet 0 ''http://localhost:8080/api/v2/auth/logout'' []]"
    by (simp only: example_logout new_calls_def snd_conv world.simps example_facts
        list.size drop_0)
  have a: "url (fst (snd (init (example_env \<lparr>status_code = 404, resp_text = []\<rparr>)
                    ''http://localhost:8080'' example_world)))
     = ''http://localhost:8080/api/v2/''"
    by (simp only: example_init fst_conv snd_conv client.simps)
  have b: "fst (init (example_env \<lparr>status_code = 404, resp_text = []\<rparr>)
                    ''http://localhost:8080'' example_world) = Inl RuntimeError"
    by (simp only: example_init fst_conv)
  have c: "endswith ''http://localhost:8080/api/v2/'' ''/api/v2/''"
    using init_facts [THEN conjunct2, THEN conjunct1] by (simp only: a)
  have d: "url (fst (snd (perform (example_env \<lparr>status_code = 200, resp_text = ''[]''\<rparr>) Logout
                      (example_client True) example_world)))
     = ''http://localhost:8080/api/v2/''"
    using logout_facts [THEN conjunct2, THEN conjunct2, THEN conjunct1]
    by (simp only: example_facts)
  have e: "startswith ''http://localhost:8080/api/v2/auth/logout'' ''http://localhost:8080/api/v2/''"
    using logout_facts [THEN conjunct2, THEN conjunct2, THEN conjunct2, THEN conjunct2]
    by (simp only: sent example_facts list.set ball_simps call_url.simps)
  from a b c d e sent show ?thesis by blast
qed

subsection \<open>The RSS endpoints\<close>

text \<open>
  C4.  \<open>remove_item\<close> posts to \<open>rss/addFeed\<close>, the endpoint to which
  \<open>add_feed\<close> posts, and not to an endpoint that removes an item.
\<close>

theorem remove_item_posts_to_add_feed:
  "new_calls example_world
     (remove_item (example_env \<lparr>status_code = 200, resp_text = []\<rparr>) (PStr ''news'')
        (example_client True) example_world)
     = [SessionPost 0 ''http://localhost:8080/api/v2/rss/addFeed''
          (PDict [(''path'', PStr ''news'')]) []]
   \<and> map call_url
        (new_calls example_world
           (add_feed (example_env \<lparr>status_code = 200, resp_text = []\<rparr>)
              (PStr ''http://feeds.example/rss'') (PStr ''news'')
              (example_client True) example_world))
     = [''http://localhost:8080/api/v2/rss/addFeed'']"
  by (simp add: remove_item_def add_feed_def post_def request_new_calls [where s = 0]
      example_facts)

end
